theory Spec2Isabelle
  imports Complex_Main
begin

section \<open>The claim-submission client of the Veritas Health Agent\<close>

text \<open>
  The repository holds three versions of one React component, \<^verbatim>\<open>App\<close>:
  \<^item> \<^verbatim>\<open>src/frontend/src/App.jsx\<close>, the basic variant (text and image, no error state);
  \<^item> \<^verbatim>\<open>src/unnamed/part_000\<close>, the basic variant with a richer result panel; its
    \<^verbatim>\<open>analyzeClaim\<close> is the same text as that of \<^verbatim>\<open>App.jsx\<close>;
  \<^item> \<^verbatim>\<open>src/unnamed/part_001\<close>, the hardened variant (error state, 120 second timeout,
    no image in the request).

  The component's \<^verbatim>\<open>useState\<close> cells become a record, each setter a state update that is
  also appended to a history, and the browser primitives (\<^verbatim>\<open>fetch\<close>, \<^verbatim>\<open>setTimeout\<close>,
  \<^verbatim>\<open>alert\<close>, \<^verbatim>\<open>console.error\<close>) become effects in a log. What the network does is an
  input of the model.
\<close>

subsection \<open>JavaScript values\<close>

text \<open>
  A parsed JSON document, as \<^verbatim>\<open>response.json()\<close> resolves to. JavaScript numbers are
  floating point; the model keeps a rational, which none of the code under study
  inspects.
\<close>

datatype json =
    JNull
  | JBool bool
  | JNum rat
  | JStr string
  | JArr "json list"
  | JObj "(string \<times> json) list"

text \<open>A thrown value: an object with a \<^verbatim>\<open>name\<close> and a \<^verbatim>\<open>message\<close>.\<close>

datatype js_error = JsError (name: string) (message: string)

text \<open>What awaiting a promise gives: a value, a thrown error, or nothing, ever.\<close>

datatype 'a settled = Resolved 'a | Rejected js_error | Pending

text \<open>\<^verbatim>\<open>!x\<close> on a string is true exactly for the empty string; on \<^verbatim>\<open>null\<close> it is true.\<close>

definition falsy_string :: "string \<Rightarrow> bool" where
  "falsy_string s = (s = [])"

definition falsy_nullable :: "string option \<Rightarrow> bool" where
  "falsy_nullable v = (case v of None \<Rightarrow> True | Some s \<Rightarrow> falsy_string s)"

text \<open>The decimal text of a number, as a template literal interpolates it.\<close>

fun string_of_nat :: "nat \<Rightarrow> string" where
  "string_of_nat n =
     (if n < 10 then [char_of (48 + n)]
      else string_of_nat (n div 10) @ [char_of (48 + n mod 10)])"

declare string_of_nat.simps [simp del]

text \<open>
  \<^verbatim>\<open>String.prototype.startsWith\<close> and \<^verbatim>\<open>String.prototype.includes\<close>
  (\<open>includes\<close> is a keyword of Isabelle, hence the prefix).
\<close>

fun startsWith :: "string \<Rightarrow> string \<Rightarrow> bool" where
  "startsWith s [] = True"
| "startsWith [] (p # ps) = False"
| "startsWith (c # cs) (p # ps) = (c = p \<and> startsWith cs ps)"

fun str_includes :: "string \<Rightarrow> string \<Rightarrow> bool" where
  "str_includes [] pat = (pat = [])"
| "str_includes (c # cs) pat = (startsWith (c # cs) pat \<or> str_includes cs pat)"

subsection \<open>The network and the browser primitives\<close>

text \<open>
  An HTTP response: its status and what reading its body as JSON does (the parsed
  document, a \<^verbatim>\<open>SyntaxError\<close> for a body that is not JSON, or a body that never ends).
\<close>

datatype body_read = Parsed json | Malformed | Stalled

record response =
  status :: nat
  json_body :: body_read

text \<open>\<^verbatim>\<open>response.ok\<close>: the status is in the range 200 to 299.\<close>

definition ok :: "response \<Rightarrow> bool" where
  "ok r = (200 \<le> status r \<and> status r \<le> 299)"

definition json_promise :: "body_read \<Rightarrow> json settled" where
  "json_promise b =
     (case b of
        Parsed d \<Rightarrow> Resolved d
      | Malformed \<Rightarrow> Rejected (JsError ''SyntaxError'' ''Unexpected token'')
      | Stalled \<Rightarrow> Pending)"

text \<open>
  What the network does with one request: the response headers arrive after so many
  milliseconds, the connection fails after so many milliseconds, or nothing ever
  happens.
\<close>

datatype network = Answers nat response | Fails nat | Silent

text \<open>
  \<^verbatim>\<open>fetch\<close> without an abort signal resolves when the headers arrive, rejects with a
  \<^verbatim>\<open>TypeError\<close> on a network failure, and otherwise stays pending.
\<close>

definition fetch_plain :: "network \<Rightarrow> response settled" where
  "fetch_plain net =
     (case net of
        Answers t r \<Rightarrow> Resolved r
      | Fails t \<Rightarrow> Rejected (JsError ''TypeError'' ''Failed to fetch'')
      | Silent \<Rightarrow> Pending)"

text \<open>
  \<^verbatim>\<open>fetch\<close> with the signal of a controller that a timer aborts \<open>ms\<close> milliseconds after
  the dispatch: whatever has not happened before the timer fires is cut off by an
  \<^verbatim>\<open>AbortError\<close>. An event at the very millisecond of the timer counts as cut off.
\<close>

definition fetch_signal :: "nat \<Rightarrow> network \<Rightarrow> response settled" where
  "fetch_signal ms net =
     (case net of
        Answers t r \<Rightarrow>
          if t < ms then Resolved r
          else Rejected (JsError ''AbortError'' ''The operation was aborted'')
      | Fails t \<Rightarrow>
          if t < ms then Rejected (JsError ''TypeError'' ''Failed to fetch'')
          else Rejected (JsError ''AbortError'' ''The operation was aborted'')
      | Silent \<Rightarrow> Rejected (JsError ''AbortError'' ''The operation was aborted''))"

text \<open>
  The request handed to \<^verbatim>\<open>fetch\<close>. \<open>body\<close> is the object given to \<^verbatim>\<open>JSON.stringify\<close>;
  \<open>signal\<close> says whether \<^verbatim>\<open>controller.signal\<close> is attached.
\<close>

record request =
  url :: string
  "method" :: string
  headers :: "(string \<times> string) list"
  body :: json
  signal :: bool

datatype effect =
    SetTimeout nat
  | ClearTimeout
  | Fetch request
  | ConsoleError string js_error
  | Alert string

subsection \<open>Component state\<close>

text \<open>
  \<^verbatim>\<open>claim\<close>, \<^verbatim>\<open>imageBase64\<close>, \<^verbatim>\<open>result\<close>, \<^verbatim>\<open>loading\<close> in all three files; \<^verbatim>\<open>error\<close> in
  \<^verbatim>\<open>part_001\<close> only. \<^verbatim>\<open>null\<close> is \<open>None\<close> for the nullable strings and \<open>JNull\<close> for
  \<^verbatim>\<open>result\<close>.
\<close>

record app_state =
  claim :: string
  imageBase64 :: "string option"
  result :: json
  loading :: bool

record hardened_state = app_state +
  error :: "string option"

definition initial_basic :: app_state where
  "initial_basic = \<lparr>claim = [], imageBase64 = None, result = JNull, loading = False\<rparr>"

definition initial_hardened :: hardened_state where
  "initial_hardened =
     \<lparr>claim = [], imageBase64 = None, result = JNull, loading = False, error = None\<rparr>"

text \<open>
  One invocation of \<^verbatim>\<open>analyzeClaim\<close>: the state now, every state it went through
  (the first is the state it started in), the effects in order, and whether the
  function has run to its end (an \<^verbatim>\<open>await\<close> that never settles leaves it suspended).
\<close>

record 'st run =
  current :: 'st
  history :: "'st list"
  effects :: "effect list"
  returned :: bool

definition start :: "'st \<Rightarrow> 'st run" where
  "start s = \<lparr>current = s, history = [s], effects = [], returned = False\<rparr>"

definition finish :: "'st run \<Rightarrow> 'st run" where
  "finish r = r\<lparr>returned := True\<rparr>"

definition set_state :: "('st \<Rightarrow> 'st) \<Rightarrow> 'st run \<Rightarrow> 'st run" where
  "set_state f r = r\<lparr>current := f (current r), history := history r @ [f (current r)]\<rparr>"

definition emit :: "effect \<Rightarrow> 'st run \<Rightarrow> 'st run" where
  "emit e r = r\<lparr>effects := effects r @ [e]\<rparr>"

definition setLoading :: "bool \<Rightarrow> 'a app_state_scheme run \<Rightarrow> 'a app_state_scheme run" where
  "setLoading b = set_state (\<lambda>s. s\<lparr>loading := b\<rparr>)"

definition setResult :: "json \<Rightarrow> 'a app_state_scheme run \<Rightarrow> 'a app_state_scheme run" where
  "setResult d = set_state (\<lambda>s. s\<lparr>result := d\<rparr>)"

definition setError :: "string option \<Rightarrow> hardened_state run \<Rightarrow> hardened_state run" where
  "setError e = set_state (\<lambda>s. s\<lparr>error := e\<rparr>)"

text \<open>How a \<^verbatim>\<open>try\<close> block ends: normally, by a throw, or suspended at an \<^verbatim>\<open>await\<close>.\<close>

datatype completion = Normal | Threw js_error | Suspended

subsection \<open>\<^verbatim>\<open>analyzeClaim\<close>, basic variant (\<^verbatim>\<open>App.jsx\<close> and \<^verbatim>\<open>part_000\<close>, lines 10 to 33)\<close>

definition nullable_json :: "string option \<Rightarrow> json" where
  "nullable_json v = (case v of None \<Rightarrow> JNull | Some s \<Rightarrow> JStr s)"

definition request_basic :: "app_state \<Rightarrow> request" where
  "request_basic s =
     \<lparr>url = ''http://localhost:8000/analyze'', method = ''POST'',
      headers = [(''Content-Type'', ''application/json'')],
      body = JObj [(''text'', JStr (claim s)),
                   (''image_base64'', nullable_json (imageBase64 s))],
      signal = False\<rparr>"

definition try_basic :: "network \<Rightarrow> app_state run \<Rightarrow> app_state run \<times> completion" where
  "try_basic net r0 =
     (let r1 = emit (Fetch (request_basic (current r0))) r0
      in case fetch_plain net of
           Pending \<Rightarrow> (r1, Suspended)
         | Rejected e \<Rightarrow> (r1, Threw e)
         | Resolved response \<Rightarrow>
             (case json_promise (json_body response) of
                Pending \<Rightarrow> (r1, Suspended)
              | Rejected e \<Rightarrow> (r1, Threw e)
              | Resolved data \<Rightarrow> (setResult data r1, Normal)))"

definition catch_basic :: "js_error \<Rightarrow> app_state run \<Rightarrow> app_state run" where
  "catch_basic e r =
     emit (Alert ''Failed to analyze claim. Make sure the backend is running.'')
       (emit (ConsoleError ''Error analyzing claim:'' e) r)"

definition analyzeClaim_basic :: "network \<Rightarrow> app_state \<Rightarrow> app_state run" where
  "analyzeClaim_basic net s =
     (if falsy_string (claim s) \<and> falsy_nullable (imageBase64 s) then finish (start s)
      else
        let r = setResult JNull (setLoading True (start s))
        in case try_basic net r of
             (r', Suspended) \<Rightarrow> r'
           | (r', Normal) \<Rightarrow> finish (setLoading False r')
           | (r', Threw e) \<Rightarrow> finish (setLoading False (catch_basic e r')))"

subsection \<open>\<^verbatim>\<open>analyzeClaim\<close>, hardened variant (\<^verbatim>\<open>part_001\<close>, lines 11 to 52)\<close>

definition request_hardened :: "hardened_state \<Rightarrow> request" where
  "request_hardened s =
     \<lparr>url = ''http://localhost:8000/analyze'', method = ''POST'',
      headers = [(''Content-Type'', ''application/json'')],
      body = JObj [(''text'', JStr (claim s)), (''image_base64'', JNull)],
      signal = True\<rparr>"

definition timeout_message :: string where
  "timeout_message = ''Request timed out. The server took too long to respond.''"

definition connectivity_message :: string where
  "connectivity_message =
     ''Failed to connect to the server. Please ensure the backend is running.''"

definition try_hardened ::
  "network \<Rightarrow> hardened_state run \<Rightarrow> hardened_state run \<times> completion" where
  "try_hardened net r0 =
     (let r1 = emit (SetTimeout 120000) r0;
          r2 = emit (Fetch (request_hardened (current r0))) r1
      in case fetch_signal 120000 net of
           Pending \<Rightarrow> (r2, Suspended)
         | Rejected e \<Rightarrow> (r2, Threw e)
         | Resolved response \<Rightarrow>
             (let r3 = emit ClearTimeout r2
              in if \<not> ok response
                 then (r3, Threw (JsError ''Error''
                                    (''Server error: '' @ string_of_nat (status response))))
                 else (case json_promise (json_body response) of
                         Pending \<Rightarrow> (r3, Suspended)
                       | Rejected e \<Rightarrow> (r3, Threw e)
                       | Resolved data \<Rightarrow> (setResult data r3, Normal))))"

definition catch_hardened :: "js_error \<Rightarrow> hardened_state run \<Rightarrow> hardened_state run" where
  "catch_hardened e r =
     (let r1 = emit (ConsoleError ''Error analyzing claim:'' e) r
      in if name e = ''AbortError'' then setError (Some timeout_message) r1
         else setError (Some connectivity_message) r1)"

definition analyzeClaim_hardened :: "network \<Rightarrow> hardened_state \<Rightarrow> hardened_state run" where
  "analyzeClaim_hardened net s =
     (if falsy_string (claim s) then finish (start s)
      else
        let r = setError None (setResult JNull (setLoading True (start s)))
        in case try_hardened net r of
             (r', Suspended) \<Rightarrow> r'
           | (r', Normal) \<Rightarrow> finish (setLoading False r')
           | (r', Threw e) \<Rightarrow> finish (setLoading False (catch_hardened e r')))"

subsection \<open>The verdict's colour and icon\<close>

text \<open>
  \<^verbatim>\<open>App.jsx\<close>, lines 92 and 93: the colour of the verdict text. \<^verbatim>\<open>result.verdict\<close> is
  taken as the string the response contract says it is.
\<close>

definition verdict_color_app :: "string \<Rightarrow> string" where
  "verdict_color_app verdict =
     (if str_includes verdict ''True'' then ''var(--color-success)''
      else if str_includes verdict ''False'' then ''var(--color-danger)''
      else ''var(--color-warning)'')"

text \<open>\<^verbatim>\<open>part_000\<close>, lines 107 and 108, and \<^verbatim>\<open>part_001\<close>, lines 112 and 113: the panel's border.\<close>

definition verdict_border_color :: "string \<Rightarrow> string" where
  "verdict_border_color verdict =
     (if str_includes verdict ''True'' then ''var(--color-success)''
      else if str_includes verdict ''False'' \<or> str_includes verdict ''Misleading''
        then ''var(--color-danger)''
      else ''var(--color-warning)'')"

text \<open>
  \<^verbatim>\<open>part_000\<close>, lines 121 and 122, and \<^verbatim>\<open>part_001\<close>, lines 126 and 127: the icon, one of
  U+2705 (check mark), U+26A0 U+FE0F (warning sign) and U+2753 (question mark).
\<close>

datatype icon = CheckMark | WarningSign | QuestionMark

definition verdict_icon :: "string \<Rightarrow> icon" where
  "verdict_icon verdict =
     (if str_includes verdict ''True'' then CheckMark
      else if str_includes verdict ''False'' \<or> str_includes verdict ''Misleading'' then WarningSign
      else QuestionMark)"

subsection \<open>The page of the hardened variant as a state machine\<close>

text \<open>
  \<^verbatim>\<open>part_001\<close>, lines 85 to 99: the text area's \<^verbatim>\<open>onChange\<close> stores what was typed, and the
  button runs \<^verbatim>\<open>analyzeClaim\<close> unless it is disabled, which it is while \<^verbatim>\<open>loading\<close>.
  \<open>session\<close> lists every state the page goes through.
\<close>

datatype event = Type string | Click network

fun session :: "event list \<Rightarrow> hardened_state \<Rightarrow> hardened_state list" where
  "session [] s = [s]"
| "session (Type v # es) s = s # session es (s\<lparr>claim := v\<rparr>)"
| "session (Click net # es) s =
     (if loading s then session es s
      else history (analyzeClaim_hardened net s)
           @ session es (current (analyzeClaim_hardened net s)))"

section \<open>Properties\<close>

subsection \<open>Substring containment\<close>

lemma startsWith_iff: "startsWith s pat \<longleftrightarrow> (\<exists>w. s = pat @ w)"
  by (induction s pat rule: startsWith.induct) auto

lemma str_includes_iff: "str_includes s pat \<longleftrightarrow> (\<exists>u w. s = u @ pat @ w)"
proof (induction s)
  case Nil
  then show ?case by auto
next
  case (Cons c cs)
  show ?case
  proof
    assume "str_includes (c # cs) pat"
    then consider "startsWith (c # cs) pat" | "str_includes cs pat" by auto
    then show "\<exists>u w. c # cs = u @ pat @ w"
    proof cases
      case 1
      then obtain w where "c # cs = pat @ w" using startsWith_iff by blast
      then have "c # cs = [] @ pat @ w" by simp
      then show ?thesis by blast
    next
      case 2
      then obtain u w where "cs = u @ pat @ w" using Cons.IH by blast
      then have "c # cs = (c # u) @ pat @ w" by simp
      then show ?thesis by blast
    qed
  next
    assume "\<exists>u w. c # cs = u @ pat @ w"
    then obtain u w where uw: "c # cs = u @ pat @ w" by blast
    show "str_includes (c # cs) pat"
    proof (cases u)
      case Nil
      with uw have "startsWith (c # cs) pat" using startsWith_iff by auto
      then show ?thesis by simp
    next
      case (Cons a u')
      with uw have "cs = u' @ pat @ w" by simp
      then have "str_includes cs pat" using Cons.IH by blast
      then show ?thesis by simp
    qed
  qed
qed

subsection \<open>The runs of \<^verbatim>\<open>analyzeClaim\<close>, case by case\<close>

lemmas run_defs = start_def finish_def set_state_def emit_def setLoading_def setResult_def
  setError_def

lemmas basic_run_defs = try_basic_def catch_basic_def fetch_plain_def json_promise_def

lemmas hardened_defs = analyzeClaim_hardened_def try_hardened_def catch_hardened_def
  fetch_signal_def json_promise_def falsy_string_def ok_def

lemma string_of_nat_500: "string_of_nat 500 = ''500''"
  by code_simp

lemma messages_differ: "timeout_message \<noteq> connectivity_message"
  by (simp add: timeout_message_def connectivity_message_def)

lemma basic_refuses:
  assumes "claim s = [] \<and> (imageBase64 s = None \<or> imageBase64 s = Some [])"
  shows "analyzeClaim_basic net s =
           \<lparr>current = s, history = [s], effects = [], returned = True\<rparr>"
  using assms
  by (auto simp: analyzeClaim_basic_def falsy_string_def falsy_nullable_def run_defs)

lemma basic_passes:
  assumes "\<not> (claim s = [] \<and> (imageBase64 s = None \<or> imageBase64 s = Some []))"
  shows "analyzeClaim_basic net s =
     (case try_basic net (setResult JNull (setLoading True (start s))) of
        (r', Suspended) \<Rightarrow> r'
      | (r', Normal) \<Rightarrow> finish (setLoading False r')
      | (r', Threw e) \<Rightarrow> finish (setLoading False (catch_basic e r')))"
proof -
  from assms have "\<not> (falsy_string (claim s) \<and> falsy_nullable (imageBase64 s))"
    by (auto simp: falsy_string_def falsy_nullable_def split: option.splits)
  then show ?thesis
    unfolding analyzeClaim_basic_def Let_def by (rule if_not_P)
qed

lemma hardened_refuses:
  assumes "claim s = []"
  shows "analyzeClaim_hardened net s =
           \<lparr>current = s, history = [s], effects = [], returned = True\<rparr>"
  using assms by (simp add: analyzeClaim_hardened_def falsy_string_def run_defs)

lemma hardened_rejected:
  assumes "claim s \<noteq> []" and "fetch_signal 120000 net = Rejected e"
  shows "analyzeClaim_hardened net s =
     (let s3 = s\<lparr>loading := True, result := JNull, error := None\<rparr>;
          m = (if name e = ''AbortError'' then timeout_message else connectivity_message)
      in \<lparr>current = s3\<lparr>error := Some m, loading := False\<rparr>,
          history = [s, s\<lparr>loading := True\<rparr>, s\<lparr>loading := True, result := JNull\<rparr>, s3,
                     s3\<lparr>error := Some m\<rparr>, s3\<lparr>error := Some m, loading := False\<rparr>],
          effects = [SetTimeout 120000, Fetch (request_hardened s),
                     ConsoleError ''Error analyzing claim:'' e],
          returned = True\<rparr>)"
  using assms
  by (simp add: analyzeClaim_hardened_def try_hardened_def catch_hardened_def falsy_string_def
      run_defs Let_def request_hardened_def)

lemma hardened_resolved:
  assumes "claim s \<noteq> []" and "fetch_signal 120000 net = Resolved r"
  shows "analyzeClaim_hardened net s =
     (let s3 = s\<lparr>loading := True, result := JNull, error := None\<rparr>;
          fx = [SetTimeout 120000, Fetch (request_hardened s), ClearTimeout];
          h3 = [s, s\<lparr>loading := True\<rparr>, s\<lparr>loading := True, result := JNull\<rparr>, s3];
          failed = (\<lambda>e.
            \<lparr>current = s3\<lparr>error := Some connectivity_message, loading := False\<rparr>,
             history = h3 @ [s3\<lparr>error := Some connectivity_message\<rparr>,
                             s3\<lparr>error := Some connectivity_message, loading := False\<rparr>],
             effects = fx @ [ConsoleError ''Error analyzing claim:'' e],
             returned = True\<rparr>)
      in if \<not> ok r
         then failed (JsError ''Error'' (''Server error: '' @ string_of_nat (status r)))
         else (case json_body r of
                 Parsed d \<Rightarrow>
                   \<lparr>current = s3\<lparr>result := d, loading := False\<rparr>,
                    history = h3 @ [s3\<lparr>result := d\<rparr>, s3\<lparr>result := d, loading := False\<rparr>],
                    effects = fx, returned = True\<rparr>
               | Malformed \<Rightarrow> failed (JsError ''SyntaxError'' ''Unexpected token'')
               | Stalled \<Rightarrow> \<lparr>current = s3, history = h3, effects = fx, returned = False\<rparr>))"
  using assms
  by (simp add: analyzeClaim_hardened_def try_hardened_def catch_hardened_def falsy_string_def
      json_promise_def run_defs Let_def request_hardened_def split: body_read.splits)

lemma fetch_signal_settles: "fetch_signal ms net \<noteq> Pending"
  by (simp add: fetch_signal_def split: network.splits)

lemma fetch_signal_cases:
  obtains r where "fetch_signal ms net = Resolved r"
  | e where "fetch_signal ms net = Rejected e"
  using fetch_signal_settles [of ms net] by (cases "fetch_signal ms net") auto

subsection \<open>The guard\<close>

text \<open>
  Claim C2. With an empty claim text and no image, \<^verbatim>\<open>analyzeClaim\<close> returns at once in
  both variants: the state is the one it started in, no intermediate state was set
  (so no loading transition, no change of result or error), and no effect happened
  (no request, no alert, no console message). The hardened variant's guard fires
  exactly when the claim text is empty. The basic variant's guard fires exactly when
  the claim text is empty and the image is \<^verbatim>\<open>null\<close> or the empty string; an encoded
  image is a data URI, which starts with \<^verbatim>\<open>data:\<close>, so on the images the page stores
  the guard fires exactly when the claim text is empty and the image is absent.
\<close>

theorem empty_submission_is_noop:
  "(claim s = [] \<and> imageBase64 s = None \<longrightarrow>
      analyzeClaim_basic net s =
        \<lparr>current = s, history = [s], effects = [], returned = True\<rparr>)
   \<and> (claim h = [] \<and> imageBase64 h = None \<longrightarrow>
      analyzeClaim_hardened net h =
        \<lparr>current = h, history = [h], effects = [], returned = True\<rparr>)
   \<and> (analyzeClaim_hardened net h =
        \<lparr>current = h, history = [h], effects = [], returned = True\<rparr>
      \<longleftrightarrow> claim h = [])
   \<and> (analyzeClaim_basic net s =
        \<lparr>current = s, history = [s], effects = [], returned = True\<rparr>
      \<longleftrightarrow> claim s = [] \<and> (imageBase64 s = None \<or> imageBase64 s = Some []))
   \<and> ((\<forall>i. imageBase64 s = Some i \<longrightarrow> startsWith i ''data:'') \<longrightarrow>
      (analyzeClaim_basic net s =
        \<lparr>current = s, history = [s], effects = [], returned = True\<rparr>
      \<longleftrightarrow> claim s = [] \<and> imageBase64 s = None))"
proof -
  have hard: "analyzeClaim_hardened net h =
        \<lparr>current = h, history = [h], effects = [], returned = True\<rparr>
      \<longleftrightarrow> claim h = []"
  proof
    assume run: "analyzeClaim_hardened net h =
        \<lparr>current = h, history = [h], effects = [], returned = True\<rparr>"
    show "claim h = []"
    proof (rule ccontr)
      assume passes: "claim h \<noteq> []"
      then have "effects (analyzeClaim_hardened net h) \<noteq> []"
        by (simp add: hardened_defs run_defs Let_def split: network.splits body_read.splits)
      with run show False by simp
    qed
  qed (rule hardened_refuses)
  have basic: "analyzeClaim_basic net s =
        \<lparr>current = s, history = [s], effects = [], returned = True\<rparr>
      \<longleftrightarrow> claim s = [] \<and> (imageBase64 s = None \<or> imageBase64 s = Some [])"
  proof
    assume run: "analyzeClaim_basic net s =
        \<lparr>current = s, history = [s], effects = [], returned = True\<rparr>"
    show "claim s = [] \<and> (imageBase64 s = None \<or> imageBase64 s = Some [])"
    proof (rule ccontr)
      assume passes: "\<not> (claim s = [] \<and> (imageBase64 s = None \<or> imageBase64 s = Some []))"
      have "effects (analyzeClaim_basic net s) \<noteq> []"
        by (simp add: basic_passes [OF passes] basic_run_defs run_defs Let_def
            split: network.splits body_read.splits)
      with run show False by simp
    qed
  qed (rule basic_refuses)
  have uri: "imageBase64 s \<noteq> Some []" if "\<forall>i. imageBase64 s = Some i \<longrightarrow> startsWith i ''data:''"
  proof
    assume "imageBase64 s = Some []"
    with that have "startsWith [] ''data:''" by blast
    then show False by simp
  qed
  from hard basic uri show ?thesis by auto
qed

theorem empty_submission_is_noop_witness:
  "claim initial_basic = [] \<and> imageBase64 initial_basic = None
   \<and> analyzeClaim_basic Silent initial_basic =
       \<lparr>current = initial_basic, history = [initial_basic], effects = [], returned = True\<rparr>
   \<and> claim initial_hardened = [] \<and> imageBase64 initial_hardened = None
   \<and> analyzeClaim_hardened Silent initial_hardened =
       \<lparr>current = initial_hardened, history = [initial_hardened], effects = [],
        returned = True\<rparr>
   \<and> startsWith ''data:image/png;base64,iVBORw0KGgo='' ''data:''
   \<and> analyzeClaim_basic Silent
         (initial_basic\<lparr>imageBase64 := Some ''data:image/png;base64,iVBORw0KGgo=''\<rparr>)
       \<noteq> \<lparr>current = initial_basic\<lparr>imageBase64 := Some ''data:image/png;base64,iVBORw0KGgo=''\<rparr>,
          history = [initial_basic\<lparr>imageBase64 := Some ''data:image/png;base64,iVBORw0KGgo=''\<rparr>],
          effects = [], returned = True\<rparr>"
  using
    empty_submission_is_noop [of initial_basic Silent initial_hardened]
    empty_submission_is_noop
      [of "initial_basic\<lparr>imageBase64 := Some ''data:image/png;base64,iVBORw0KGgo=''\<rparr>"
          Silent initial_hardened]
  by (simp add: initial_basic_def initial_hardened_def)

subsection \<open>HTTP error statuses in the hardened variant\<close>

text \<open>
  Whatever the status, a response outside 200 to 299 that arrives before the timer ends
  in the connectivity message; the status is in the logged error only.
\<close>

lemma hardened_http_error:
  assumes "claim s \<noteq> []" and "t < 120000" and "\<not> ok r"
  shows "returned (analyzeClaim_hardened (Answers t r) s)"
    and "result (current (analyzeClaim_hardened (Answers t r) s)) = JNull"
    and "error (current (analyzeClaim_hardened (Answers t r) s)) = Some connectivity_message"
    and "last (effects (analyzeClaim_hardened (Answers t r) s)) =
           ConsoleError ''Error analyzing claim:''
             (JsError ''Error'' (''Server error: '' @ string_of_nat (status r)))"
proof -
  from assms(2) have f: "fetch_signal 120000 (Answers t r) = Resolved r"
    by (simp add: fetch_signal_def)
  note run = hardened_resolved [OF assms(1) f]
  from assms(3) show "returned (analyzeClaim_hardened (Answers t r) s)"
    by (simp add: run Let_def)
  from assms(3) show "result (current (analyzeClaim_hardened (Answers t r) s)) = JNull"
    by (simp add: run Let_def)
  from assms(3)
  show "error (current (analyzeClaim_hardened (Answers t r) s)) = Some connectivity_message"
    by (simp add: run Let_def)
  from assms(3)
  show "last (effects (analyzeClaim_hardened (Answers t r) s)) =
           ConsoleError ''Error analyzing claim:''
             (JsError ''Error'' (''Server error: '' @ string_of_nat (status r)))"
    by (simp add: run Let_def)
qed

text \<open>
  Claim C1. The claim is that a non-2xx status leaves in the error state a message
  that embeds the status code, ``500'' for HTTP 500. The code builds such a message,
  \<^verbatim>\<open>Server error: 500\<close>, for the error it throws, but the \<^verbatim>\<open>catch\<close> block looks at the
  error's name only and stores the connectivity message. At the input below (a
  response with status 500 arriving after 10 ms, for the claim of the spec's first
  scenario) the invocation returns with an empty result, the error state is the
  connectivity message, which does not contain ``500'', and the message with the
  status code went to the console only.
\<close>

theorem http_500_error_state:
  "returned (analyzeClaim_hardened
      (Answers 10 \<lparr>status = 500,
                    json_body = Parsed (JObj [(''detail'', JStr ''Internal Server Error'')])\<rparr>)
      (initial_hardened\<lparr>claim := ''Drinking lemon water cures cancer''\<rparr>))
   \<and> result (current (analyzeClaim_hardened
      (Answers 10 \<lparr>status = 500,
                    json_body = Parsed (JObj [(''detail'', JStr ''Internal Server Error'')])\<rparr>)
      (initial_hardened\<lparr>claim := ''Drinking lemon water cures cancer''\<rparr>))) = JNull
   \<and> error (current (analyzeClaim_hardened
      (Answers 10 \<lparr>status = 500,
                    json_body = Parsed (JObj [(''detail'', JStr ''Internal Server Error'')])\<rparr>)
      (initial_hardened\<lparr>claim := ''Drinking lemon water cures cancer''\<rparr>)))
     = Some ''Failed to connect to the server. Please ensure the backend is running.''
   \<and> \<not> str_includes
         ''Failed to connect to the server. Please ensure the backend is running.'' ''500''
   \<and> ConsoleError ''Error analyzing claim:'' (JsError ''Error'' ''Server error: 500'')
       \<in> set (effects (analyzeClaim_hardened
      (Answers 10 \<lparr>status = 500,
                    json_body = Parsed (JObj [(''detail'', JStr ''Internal Server Error'')])\<rparr>)
      (initial_hardened\<lparr>claim := ''Drinking lemon water cures cancer''\<rparr>)))"
  by (simp add: hardened_defs run_defs Let_def initial_hardened_def connectivity_message_def
      string_of_nat_500)

subsection \<open>Timeouts and network failures in the hardened variant\<close>

text \<open>
  Claim C3. In the hardened variant, for an invocation that passes the guard: whenever
  \<^verbatim>\<open>fetch\<close> rejects, the invocation returns, the error state is the timeout message if
  the error's name is \<^verbatim>\<open>AbortError\<close> and the connectivity message otherwise, and the
  result is empty from the moment it was cleared to the end. The timer is the only
  source of an \<^verbatim>\<open>AbortError\<close>: when the server is silent, or answers or fails only at
  120000 ms or later, the error state is the timeout message and not the connectivity
  message; when the connection fails before that, it is the connectivity message. The
  result is empty in both cases.
\<close>

theorem failure_classification:
  assumes "claim s \<noteq> []"
  shows "(fetch_signal 120000 net = Rejected e \<longrightarrow>
            returned (analyzeClaim_hardened net s)
            \<and> error (current (analyzeClaim_hardened net s)) =
                Some (if name e = ''AbortError'' then timeout_message
                      else connectivity_message)
            \<and> (\<forall>x \<in> set (drop 2 (history (analyzeClaim_hardened net s))). result x = JNull)
            \<and> result (current (analyzeClaim_hardened net s)) = JNull)
       \<and> (net = Silent \<or> (120000 \<le> t \<and> (net = Answers t r \<or> net = Fails t)) \<longrightarrow>
            error (current (analyzeClaim_hardened net s)) = Some timeout_message
            \<and> error (current (analyzeClaim_hardened net s)) \<noteq> Some connectivity_message
            \<and> result (current (analyzeClaim_hardened net s)) = JNull)
       \<and> (t < 120000 \<and> net = Fails t \<longrightarrow>
            error (current (analyzeClaim_hardened net s)) = Some connectivity_message
            \<and> result (current (analyzeClaim_hardened net s)) = JNull)"
proof (intro conjI impI)
  assume rej: "fetch_signal 120000 net = Rejected e"
  note run = hardened_rejected [OF assms rej]
  show "returned (analyzeClaim_hardened net s)" by (simp add: run Let_def)
  show "error (current (analyzeClaim_hardened net s)) =
          Some (if name e = ''AbortError'' then timeout_message else connectivity_message)"
    by (simp add: run Let_def)
  show "\<forall>x \<in> set (drop 2 (history (analyzeClaim_hardened net s))). result x = JNull"
    by (simp add: run Let_def)
  show "result (current (analyzeClaim_hardened net s)) = JNull" by (simp add: run Let_def)
next
  assume late: "net = Silent \<or> (120000 \<le> t \<and> (net = Answers t r \<or> net = Fails t))"
  then have rej: "fetch_signal 120000 net =
                    Rejected (JsError ''AbortError'' ''The operation was aborted'')"
    by (auto simp: fetch_signal_def)
  note run = hardened_rejected [OF assms rej]
  show "error (current (analyzeClaim_hardened net s)) = Some timeout_message"
    by (simp add: run Let_def)
  then show "error (current (analyzeClaim_hardened net s)) \<noteq> Some connectivity_message"
    by (simp add: messages_differ)
  show "result (current (analyzeClaim_hardened net s)) = JNull" by (simp add: run Let_def)
next
  assume early: "t < 120000 \<and> net = Fails t"
  then have rej: "fetch_signal 120000 net = Rejected (JsError ''TypeError'' ''Failed to fetch'')"
    by (auto simp: fetch_signal_def)
  note run = hardened_rejected [OF assms rej]
  show "error (current (analyzeClaim_hardened net s)) = Some connectivity_message"
    by (simp add: run Let_def)
  show "result (current (analyzeClaim_hardened net s)) = JNull" by (simp add: run Let_def)
qed

theorem failure_classification_witness:
  "claim (initial_hardened\<lparr>claim := ''Garlic cures flu''\<rparr>) \<noteq> []
   \<and> (130000::nat) \<ge> 120000
   \<and> fetch_signal 120000 (Answers 130000 \<lparr>status = 200, json_body = Parsed JNull\<rparr>)
       = Rejected (JsError ''AbortError'' ''The operation was aborted'')
   \<and> error (current (analyzeClaim_hardened
        (Answers 130000 \<lparr>status = 200, json_body = Parsed JNull\<rparr>)
        (initial_hardened\<lparr>claim := ''Garlic cures flu''\<rparr>)))
       = Some ''Request timed out. The server took too long to respond.''
   \<and> (25::nat) < 120000
   \<and> error (current (analyzeClaim_hardened (Fails 25)
        (initial_hardened\<lparr>claim := ''Garlic cures flu''\<rparr>)))
       = Some ''Failed to connect to the server. Please ensure the backend is running.''
   \<and> result (current (analyzeClaim_hardened (Fails 25)
        (initial_hardened\<lparr>claim := ''Garlic cures flu''\<rparr>))) = JNull"
  using
    failure_classification [of "initial_hardened\<lparr>claim := ''Garlic cures flu''\<rparr>"
      "Answers 130000 \<lparr>status = 200, json_body = Parsed JNull\<rparr>"
      "JsError ''AbortError'' ''The operation was aborted''" 130000
      "\<lparr>status = 200, json_body = Parsed JNull\<rparr>"]
    failure_classification [of "initial_hardened\<lparr>claim := ''Garlic cures flu''\<rparr>"
      "Fails 25" "JsError ''TypeError'' ''Failed to fetch''" 25
      "\<lparr>status = 200, json_body = Parsed JNull\<rparr>"]
  by (simp add: initial_hardened_def fetch_signal_def timeout_message_def
      connectivity_message_def)

subsection \<open>The loading flag\<close>

text \<open>
  Claim C4. In both variants, an invocation that passes the guard first sets
  \<^verbatim>\<open>loading\<close> to true, keeps it true in every state up to the last, and, whenever it
  returns, returns with \<^verbatim>\<open>loading\<close> false. It does return on every path on which the
  awaited promises settle: in the basic variant unless the server stays silent or the
  body never ends, in the hardened variant unless a 2xx response arrived before the
  timer and its body never ends. So success, an HTTP error status, a network failure
  and (hardened variant) the timeout all end with the flag cleared.
\<close>

theorem loading_cleared_on_every_exit:
  "(\<not> (claim s = [] \<and> (imageBase64 s = None \<or> imageBase64 s = Some [])) \<longrightarrow>
      history (analyzeClaim_basic net s) ! 1 = s\<lparr>loading := True\<rparr>
      \<and> (\<forall>x \<in> set (butlast (tl (history (analyzeClaim_basic net s)))). loading x)
      \<and> (returned (analyzeClaim_basic net s)
            \<longrightarrow> \<not> loading (current (analyzeClaim_basic net s)))
      \<and> (returned (analyzeClaim_basic net s) \<longleftrightarrow>
           \<not> (net = Silent \<or> (\<exists>t r. net = Answers t r \<and> json_body r = Stalled))))
   \<and> (claim h \<noteq> [] \<longrightarrow>
      history (analyzeClaim_hardened net h) ! 1 = h\<lparr>loading := True\<rparr>
      \<and> (\<forall>x \<in> set (butlast (tl (history (analyzeClaim_hardened net h)))). loading x)
      \<and> (returned (analyzeClaim_hardened net h)
            \<longrightarrow> \<not> loading (current (analyzeClaim_hardened net h)))
      \<and> (returned (analyzeClaim_hardened net h) \<longleftrightarrow>
           \<not> (\<exists>t r. net = Answers t r \<and> t < 120000 \<and> ok r \<and> json_body r = Stalled)))"
proof (intro conjI impI)
  assume g: "\<not> (claim s = [] \<and> (imageBase64 s = None \<or> imageBase64 s = Some []))"
  note run = basic_passes [OF g]
  show "history (analyzeClaim_basic net s) ! 1 = s\<lparr>loading := True\<rparr>"
    by (simp add: run basic_run_defs run_defs Let_def
        split: network.splits body_read.splits)
  show "\<forall>x \<in> set (butlast (tl (history (analyzeClaim_basic net s)))). loading x"
    by (simp add: run basic_run_defs run_defs Let_def
        split: network.splits body_read.splits)
  have "returned (analyzeClaim_basic net s)
          \<longrightarrow> \<not> loading (current (analyzeClaim_basic net s))"
    by (simp add: run basic_run_defs run_defs Let_def
        split: network.splits body_read.splits)
  then show "\<not> loading (current (analyzeClaim_basic net s))"
    if "returned (analyzeClaim_basic net s)"
    using that by blast
  show "returned (analyzeClaim_basic net s) \<longleftrightarrow>
           \<not> (net = Silent \<or> (\<exists>t r. net = Answers t r \<and> json_body r = Stalled))"
    by (simp add: run basic_run_defs run_defs Let_def
        split: network.splits body_read.splits)
next
  assume g: "claim h \<noteq> []"
  show "history (analyzeClaim_hardened net h) ! 1 = h\<lparr>loading := True\<rparr>"
    using g by (simp add: hardened_defs run_defs Let_def
        split: network.splits body_read.splits)
  show "\<forall>x \<in> set (butlast (tl (history (analyzeClaim_hardened net h)))). loading x"
    using g by (simp add: hardened_defs run_defs Let_def
        split: network.splits body_read.splits)
  have "returned (analyzeClaim_hardened net h)
          \<longrightarrow> \<not> loading (current (analyzeClaim_hardened net h))"
    using g by (simp add: hardened_defs run_defs Let_def
        split: network.splits body_read.splits)
  then show "\<not> loading (current (analyzeClaim_hardened net h))"
    if "returned (analyzeClaim_hardened net h)"
    using that by blast
  show "returned (analyzeClaim_hardened net h) \<longleftrightarrow>
           \<not> (\<exists>t r. net = Answers t r \<and> t < 120000 \<and> ok r \<and> json_body r = Stalled)"
    using g by (simp add: analyzeClaim_hardened_def try_hardened_def catch_hardened_def
        fetch_signal_def json_promise_def falsy_string_def run_defs Let_def
        split: network.splits body_read.splits)
qed

theorem loading_cleared_on_every_exit_witness:
  "\<not> (claim (initial_basic\<lparr>claim := ''Garlic cures flu''\<rparr>) = []
       \<and> (imageBase64 (initial_basic\<lparr>claim := ''Garlic cures flu''\<rparr>) = None
          \<or> imageBase64 (initial_basic\<lparr>claim := ''Garlic cures flu''\<rparr>) = Some []))
   \<and> returned (analyzeClaim_basic (Fails 25) (initial_basic\<lparr>claim := ''Garlic cures flu''\<rparr>))
   \<and> \<not> loading (current (analyzeClaim_basic (Fails 25)
                              (initial_basic\<lparr>claim := ''Garlic cures flu''\<rparr>)))
   \<and> claim (initial_hardened\<lparr>claim := ''Garlic cures flu''\<rparr>) \<noteq> []
   \<and> returned (analyzeClaim_hardened (Fails 25)
                 (initial_hardened\<lparr>claim := ''Garlic cures flu''\<rparr>))
   \<and> \<not> loading (current (analyzeClaim_hardened (Fails 25)
                              (initial_hardened\<lparr>claim := ''Garlic cures flu''\<rparr>)))"
  using loading_cleared_on_every_exit
    [of "initial_basic\<lparr>claim := ''Garlic cures flu''\<rparr>" "Fails 25"
        "initial_hardened\<lparr>claim := ''Garlic cures flu''\<rparr>"]
  by (simp add: initial_basic_def initial_hardened_def)

subsection \<open>Result and error exclude each other\<close>

lemma hardened_preserves_exclusion:
  assumes "result s = JNull \<or> error s = None"
  shows "\<forall>x \<in> set (history (analyzeClaim_hardened net s)). result x = JNull \<or> error x = None"
proof (cases "claim s = []")
  case True
  with assms show ?thesis by (simp add: hardened_refuses)
next
  case False
  show ?thesis
  proof (cases rule: fetch_signal_cases [of 120000 net])
    case (1 r)
    from assms show ?thesis
      by (simp add: hardened_resolved [OF False 1] Let_def split: body_read.splits)
  next
    case (2 e)
    from assms show ?thesis
      by (simp add: hardened_rejected [OF False 2] Let_def)
  qed
qed

lemma hardened_current_in_history:
  "current (analyzeClaim_hardened net s) \<in> set (history (analyzeClaim_hardened net s))"
proof (cases "claim s = []")
  case True
  then show ?thesis by (simp add: hardened_refuses)
next
  case False
  show ?thesis
  proof (cases rule: fetch_signal_cases [of 120000 net])
    case (1 r)
    show ?thesis
      by (simp add: hardened_resolved [OF False 1] Let_def split: body_read.splits)
  next
    case (2 e)
    show ?thesis
      by (simp add: hardened_rejected [OF False 2] Let_def)
  qed
qed

lemma session_exclusion:
  "result s = JNull \<or> error s = None \<Longrightarrow>
   \<forall>x \<in> set (session es s). result x = JNull \<or> error x = None"
proof (induction es s rule: session.induct)
  case (1 s)
  then show ?case by simp
next
  case (2 v es s)
  then show ?case by simp
next
  case (3 net es s)
  show ?case
  proof (cases "loading s")
    case True
    with 3 show ?thesis by simp
  next
    case False
    have h: "\<forall>x \<in> set (history (analyzeClaim_hardened net s)).
               result x = JNull \<or> error x = None"
      using "3.prems" by (rule hardened_preserves_exclusion)
    have "result (current (analyzeClaim_hardened net s)) = JNull
          \<or> error (current (analyzeClaim_hardened net s)) = None"
      by (rule bspec [OF h hardened_current_in_history])
    with "3.IH"(2) [OF False] have t:
      "\<forall>x \<in> set (session es (current (analyzeClaim_hardened net s))).
         result x = JNull \<or> error x = None"
      by simp
    from h t False show ?thesis by auto
  qed
qed

text \<open>
  Claim C5. In the hardened variant, in every state the page goes through, from the
  initial state on, under any sequence of typing and clicking and whatever the network
  does (the states inside each invocation included), the result is empty or the error
  is. An invocation that passes the guard has cleared both by its fourth state; a
  successful one (a 2xx response in time with a JSON body) ends with the result set and
  the error empty; every other one that returns ends with the error set and the result
  empty.
\<close>

theorem result_error_exclusive:
  "(\<forall>x \<in> set (session es initial_hardened). result x = JNull \<or> error x = None)
   \<and> (claim s \<noteq> [] \<longrightarrow>
        history (analyzeClaim_hardened net s) ! 3 =
          s\<lparr>loading := True, result := JNull, error := None\<rparr>)
   \<and> (claim s \<noteq> [] \<and> t < 120000 \<and> ok r \<and> json_body r = Parsed d \<longrightarrow>
        current (analyzeClaim_hardened (Answers t r) s) =
          s\<lparr>loading := False, result := d, error := None\<rparr>)
   \<and> (claim s \<noteq> [] \<and> returned (analyzeClaim_hardened net s)
        \<and> \<not> (\<exists>t r d. net = Answers t r \<and> t < 120000 \<and> ok r \<and> json_body r = Parsed d) \<longrightarrow>
        (\<exists>m. current (analyzeClaim_hardened net s) =
                s\<lparr>loading := False, result := JNull, error := Some m\<rparr>))"
proof (intro conjI impI)
  show "\<forall>x \<in> set (session es initial_hardened). result x = JNull \<or> error x = None"
    by (rule session_exclusion) (simp add: initial_hardened_def)
next
  assume ne: "claim s \<noteq> []"
  show "history (analyzeClaim_hardened net s) ! 3 =
          s\<lparr>loading := True, result := JNull, error := None\<rparr>"
  proof (cases rule: fetch_signal_cases [of 120000 net])
    case (1 r)
    show ?thesis
      by (simp add: hardened_resolved [OF ne 1] Let_def split: body_read.splits)
  next
    case (2 e)
    show ?thesis
      by (simp add: hardened_rejected [OF ne 2] Let_def)
  qed
next
  assume a: "claim s \<noteq> [] \<and> t < 120000 \<and> ok r \<and> json_body r = Parsed d"
  then have f: "fetch_signal 120000 (Answers t r) = Resolved r"
    by (simp add: fetch_signal_def)
  from a have ne: "claim s \<noteq> []" by simp
  from a show "current (analyzeClaim_hardened (Answers t r) s) =
                 s\<lparr>loading := False, result := d, error := None\<rparr>"
    by (simp add: hardened_resolved [OF ne f] Let_def)
next
  assume a: "claim s \<noteq> [] \<and> returned (analyzeClaim_hardened net s)
        \<and> \<not> (\<exists>t r d. net = Answers t r \<and> t < 120000 \<and> ok r \<and> json_body r = Parsed d)"
  then have ne: "claim s \<noteq> []" by simp
  from a have ret: "returned (analyzeClaim_hardened net s)" by simp
  show "\<exists>m. current (analyzeClaim_hardened net s) =
               s\<lparr>loading := False, result := JNull, error := Some m\<rparr>"
  proof (cases rule: fetch_signal_cases [of 120000 net])
    case (1 r)
    then obtain t where n: "net = Answers t r" "t < 120000"
      by (cases net) (auto simp: fetch_signal_def split: if_splits)
    with a have np: "\<not> ok r \<or> (\<forall>d. json_body r \<noteq> Parsed d)" by blast
    show ?thesis
    proof (cases "ok r")
      case False
      then show ?thesis
        by (intro exI [of _ connectivity_message])
           (simp add: hardened_resolved [OF ne 1] Let_def)
    next
      case True
      with np have nd: "\<forall>d. json_body r \<noteq> Parsed d" by simp
      show ?thesis
      proof (cases "json_body r")
        case (Parsed d)
        with nd show ?thesis by simp
      next
        case Malformed
        with True show ?thesis
          by (intro exI [of _ connectivity_message])
             (simp add: hardened_resolved [OF ne 1] Let_def)
      next
        case Stalled
        with True ret show ?thesis by (simp add: hardened_resolved [OF ne 1] Let_def)
      qed
    qed
  next
    case (2 e)
    show ?thesis
      by (intro exI [of _ "if name e = ''AbortError'' then timeout_message
                           else connectivity_message"])
         (simp add: hardened_rejected [OF ne 2] Let_def)
  qed
qed

theorem result_error_exclusive_witness:
  "\<lparr>claim = ''Garlic cures flu'', imageBase64 = None, result = JNull, loading = False,
      error = Some ''Failed to connect to the server. Please ensure the backend is running.''\<rparr>
     \<in> set (session [Type ''Garlic cures flu'', Click (Fails 25)] initial_hardened)
   \<and> (result \<lparr>claim = ''Garlic cures flu'', imageBase64 = None, result = JNull,
               loading = False,
               error = Some ''Failed to connect to the server. Please ensure the backend is running.''\<rparr>
        = JNull
      \<or> error \<lparr>claim = ''Garlic cures flu'', imageBase64 = None, result = JNull,
               loading = False,
               error = Some ''Failed to connect to the server. Please ensure the backend is running.''\<rparr>
        = None)
   \<and> claim (initial_hardened\<lparr>claim := ''Garlic cures flu''\<rparr>) \<noteq> []
   \<and> (25::nat) < 120000
   \<and> ok \<lparr>status = 200, json_body = Parsed (JObj [(''verdict'', JStr ''False'')])\<rparr>
   \<and> current (analyzeClaim_hardened
        (Answers 25 \<lparr>status = 200, json_body = Parsed (JObj [(''verdict'', JStr ''False'')])\<rparr>)
        (initial_hardened\<lparr>claim := ''Garlic cures flu''\<rparr>))
      = \<lparr>claim = ''Garlic cures flu'', imageBase64 = None,
         result = JObj [(''verdict'', JStr ''False'')], loading = False, error = None\<rparr>"
  using result_error_exclusive
    [of "[Type ''Garlic cures flu'', Click (Fails 25)]"
        "initial_hardened\<lparr>claim := ''Garlic cures flu''\<rparr>"
        "Answers 25 \<lparr>status = 200, json_body = Parsed (JObj [(''verdict'', JStr ''False'')])\<rparr>"
        25
        "\<lparr>status = 200, json_body = Parsed (JObj [(''verdict'', JStr ''False'')])\<rparr>"
        "JObj [(''verdict'', JStr ''False'')]"]
  by (simp add: initial_hardened_def hardened_defs run_defs Let_def connectivity_message_def)

subsection \<open>The request\<close>

text \<open>
  Claim C6. An invocation that passes the guard dispatches exactly one request, a POST
  to the fixed endpoint whose body is the object with the two fields \<^verbatim>\<open>text\<close> and
  \<^verbatim>\<open>image_base64\<close>: \<^verbatim>\<open>text\<close> is the claim text; \<^verbatim>\<open>image_base64\<close> is, in the basic
  variant, the stored image or \<^verbatim>\<open>null\<close> when there is none, and in the hardened variant
  always \<^verbatim>\<open>null\<close>, whatever the image state holds.
\<close>

theorem request_body_shape:
  "(\<not> (claim s = [] \<and> (imageBase64 s = None \<or> imageBase64 s = Some [])) \<longrightarrow>
      filter (\<lambda>e. \<exists>q. e = Fetch q) (effects (analyzeClaim_basic net s)) =
        [Fetch \<lparr>url = ''http://localhost:8000/analyze'', method = ''POST'',
                headers = [(''Content-Type'', ''application/json'')],
                body = JObj [(''text'', JStr (claim s)),
                             (''image_base64'',
                              (case imageBase64 s of None \<Rightarrow> JNull | Some i \<Rightarrow> JStr i))],
                signal = False\<rparr>])
   \<and> (claim h \<noteq> [] \<longrightarrow>
      filter (\<lambda>e. \<exists>q. e = Fetch q) (effects (analyzeClaim_hardened net h)) =
        [Fetch \<lparr>url = ''http://localhost:8000/analyze'', method = ''POST'',
                headers = [(''Content-Type'', ''application/json'')],
                body = JObj [(''text'', JStr (claim h)), (''image_base64'', JNull)],
                signal = True\<rparr>])"
proof (intro conjI impI)
  assume g: "\<not> (claim s = [] \<and> (imageBase64 s = None \<or> imageBase64 s = Some []))"
  show "filter (\<lambda>e. \<exists>q. e = Fetch q) (effects (analyzeClaim_basic net s)) =
        [Fetch \<lparr>url = ''http://localhost:8000/analyze'', method = ''POST'',
                headers = [(''Content-Type'', ''application/json'')],
                body = JObj [(''text'', JStr (claim s)),
                             (''image_base64'',
                              (case imageBase64 s of None \<Rightarrow> JNull | Some i \<Rightarrow> JStr i))],
                signal = False\<rparr>]"
    by (simp add: basic_passes [OF g] basic_run_defs run_defs Let_def request_basic_def
        nullable_json_def split: network.splits body_read.splits)
next
  assume g: "claim h \<noteq> []"
  show "filter (\<lambda>e. \<exists>q. e = Fetch q) (effects (analyzeClaim_hardened net h)) =
        [Fetch \<lparr>url = ''http://localhost:8000/analyze'', method = ''POST'',
                headers = [(''Content-Type'', ''application/json'')],
                body = JObj [(''text'', JStr (claim h)), (''image_base64'', JNull)],
                signal = True\<rparr>]"
  proof (cases rule: fetch_signal_cases [of 120000 net])
    case (1 r)
    show ?thesis
      by (simp add: hardened_resolved [OF g 1] Let_def request_hardened_def
          split: body_read.splits)
  next
    case (2 e)
    show ?thesis
      by (simp add: hardened_rejected [OF g 2] Let_def request_hardened_def)
  qed
qed

theorem request_body_shape_witness:
  "\<not> (claim \<lparr>claim = ''Image uploaded'', imageBase64 = Some ''data:image/png;base64,iVBORw0KGgo='',
              result = JNull, loading = False\<rparr> = []
       \<and> (imageBase64 \<lparr>claim = ''Image uploaded'',
                         imageBase64 = Some ''data:image/png;base64,iVBORw0KGgo='',
                         result = JNull, loading = False\<rparr> = None
          \<or> imageBase64 \<lparr>claim = ''Image uploaded'',
                         imageBase64 = Some ''data:image/png;base64,iVBORw0KGgo='',
                         result = JNull, loading = False\<rparr> = Some []))
   \<and> filter (\<lambda>e. \<exists>q. e = Fetch q)
        (effects (analyzeClaim_basic Silent
           \<lparr>claim = ''Image uploaded'', imageBase64 = Some ''data:image/png;base64,iVBORw0KGgo='',
              result = JNull, loading = False\<rparr>))
      = [Fetch \<lparr>url = ''http://localhost:8000/analyze'', method = ''POST'',
                headers = [(''Content-Type'', ''application/json'')],
                body = JObj [(''text'', JStr ''Image uploaded''),
                             (''image_base64'', JStr ''data:image/png;base64,iVBORw0KGgo='')],
                signal = False\<rparr>]
   \<and> claim \<lparr>claim = ''Garlic cures flu'',
             imageBase64 = Some ''data:image/png;base64,iVBORw0KGgo='',
             result = JNull, loading = False, error = None\<rparr> \<noteq> []
   \<and> filter (\<lambda>e. \<exists>q. e = Fetch q)
        (effects (analyzeClaim_hardened Silent
           \<lparr>claim = ''Garlic cures flu'',
              imageBase64 = Some ''data:image/png;base64,iVBORw0KGgo='',
              result = JNull, loading = False, error = None\<rparr>))
      = [Fetch \<lparr>url = ''http://localhost:8000/analyze'', method = ''POST'',
                headers = [(''Content-Type'', ''application/json'')],
                body = JObj [(''text'', JStr ''Garlic cures flu''), (''image_base64'', JNull)],
                signal = True\<rparr>]"
  using request_body_shape
    [of "\<lparr>claim = ''Image uploaded'', imageBase64 = Some ''data:image/png;base64,iVBORw0KGgo='',
           result = JNull, loading = False\<rparr>"
        Silent
        "\<lparr>claim = ''Garlic cures flu'',
           imageBase64 = Some ''data:image/png;base64,iVBORw0KGgo='',
           result = JNull, loading = False, error = None\<rparr>"]
  by simp

subsection \<open>Non-2xx responses in the basic variant\<close>

text \<open>
  Claim C8. In the basic variant the status of a response plays no part: for a
  response of any status (so also a non-2xx one) whose body is JSON, the run is the
  very run that the same body with status 200 gives, and when the guard is passed it
  returns with the parsed body stored as the result, having done nothing but the one
  request (no alert, no console message). What the page then shows depends on the
  state only, so the error body is rendered as a result would be.
\<close>

theorem basic_stores_error_body:
  "analyzeClaim_basic (Answers t \<lparr>status = code, json_body = Parsed d\<rparr>) s =
     analyzeClaim_basic (Answers t \<lparr>status = 200, json_body = Parsed d\<rparr>) s
   \<and> (\<not> (claim s = [] \<and> (imageBase64 s = None \<or> imageBase64 s = Some [])) \<longrightarrow>
        returned (analyzeClaim_basic (Answers t \<lparr>status = code, json_body = Parsed d\<rparr>) s)
        \<and> current (analyzeClaim_basic (Answers t \<lparr>status = code, json_body = Parsed d\<rparr>) s)
            = s\<lparr>result := d, loading := False\<rparr>
        \<and> effects (analyzeClaim_basic (Answers t \<lparr>status = code, json_body = Parsed d\<rparr>) s)
            = [Fetch (request_basic s)])"
proof (intro conjI impI)
  show "analyzeClaim_basic (Answers t \<lparr>status = code, json_body = Parsed d\<rparr>) s =
          analyzeClaim_basic (Answers t \<lparr>status = 200, json_body = Parsed d\<rparr>) s"
    by (simp add: analyzeClaim_basic_def basic_run_defs)
next
  assume g: "\<not> (claim s = [] \<and> (imageBase64 s = None \<or> imageBase64 s = Some []))"
  note run = basic_passes [OF g]
  show "returned (analyzeClaim_basic (Answers t \<lparr>status = code, json_body = Parsed d\<rparr>) s)"
    by (simp add: run basic_run_defs run_defs Let_def)
  show "current (analyzeClaim_basic (Answers t \<lparr>status = code, json_body = Parsed d\<rparr>) s)
          = s\<lparr>result := d, loading := False\<rparr>"
    by (simp add: run basic_run_defs run_defs Let_def)
  show "effects (analyzeClaim_basic (Answers t \<lparr>status = code, json_body = Parsed d\<rparr>) s)
          = [Fetch (request_basic s)]"
    by (simp add: run basic_run_defs run_defs Let_def request_basic_def)
qed

theorem basic_stores_error_body_witness:
  "\<not> ok \<lparr>status = 500, json_body = Parsed (JObj [(''detail'', JStr ''Internal Server Error'')])\<rparr>
   \<and> \<not> (claim (initial_basic\<lparr>claim := ''Garlic cures flu''\<rparr>) = []
        \<and> (imageBase64 (initial_basic\<lparr>claim := ''Garlic cures flu''\<rparr>) = None
           \<or> imageBase64 (initial_basic\<lparr>claim := ''Garlic cures flu''\<rparr>) = Some []))
   \<and> returned (analyzeClaim_basic
        (Answers 25 \<lparr>status = 500,
                      json_body = Parsed (JObj [(''detail'', JStr ''Internal Server Error'')])\<rparr>)
        (initial_basic\<lparr>claim := ''Garlic cures flu''\<rparr>))
   \<and> result (current (analyzeClaim_basic
        (Answers 25 \<lparr>status = 500,
                      json_body = Parsed (JObj [(''detail'', JStr ''Internal Server Error'')])\<rparr>)
        (initial_basic\<lparr>claim := ''Garlic cures flu''\<rparr>)))
      = JObj [(''detail'', JStr ''Internal Server Error'')]
   \<and> Alert ''Failed to analyze claim. Make sure the backend is running.''
        \<notin> set (effects (analyzeClaim_basic
        (Answers 25 \<lparr>status = 500,
                      json_body = Parsed (JObj [(''detail'', JStr ''Internal Server Error'')])\<rparr>)
        (initial_basic\<lparr>claim := ''Garlic cures flu''\<rparr>)))"
  using basic_stores_error_body
    [of 25 500 "JObj [(''detail'', JStr ''Internal Server Error'')]"
        "initial_basic\<lparr>claim := ''Garlic cures flu''\<rparr>", THEN conjunct2]
  by (simp add: initial_basic_def ok_def)

subsection \<open>Whitespace passes the guard\<close>

text \<open>
  Claim C10. The guard tests the claim text for emptiness only: every non-empty claim
  text, one made of nothing but whitespace included, passes it, and the request is
  dispatched; in the basic variant whether or not an image is stored, and in the
  hardened variant, which never reads the image, a request is dispatched exactly when
  the claim text is not empty.
\<close>

theorem nonempty_claim_dispatches:
  "(claim s \<noteq> [] \<longrightarrow>
      Fetch (request_basic s) \<in> set (effects (analyzeClaim_basic net s)))
   \<and> (claim h \<noteq> [] \<longrightarrow>
      Fetch (request_hardened h) \<in> set (effects (analyzeClaim_hardened net h)))
   \<and> ((\<exists>q. Fetch q \<in> set (effects (analyzeClaim_hardened net h))) \<longleftrightarrow> claim h \<noteq> [])"
proof (intro conjI impI)
  assume "claim s \<noteq> []"
  then have g: "\<not> (claim s = [] \<and> (imageBase64 s = None \<or> imageBase64 s = Some []))"
    by simp
  show "Fetch (request_basic s) \<in> set (effects (analyzeClaim_basic net s))"
    by (simp add: basic_passes [OF g] basic_run_defs run_defs Let_def request_basic_def
        split: network.splits body_read.splits)
next
  have sent: "Fetch (request_hardened h) \<in> set (effects (analyzeClaim_hardened net h))"
    if g: "claim h \<noteq> []"
  proof (cases rule: fetch_signal_cases [of 120000 net])
    case (1 r)
    show ?thesis
      by (simp add: hardened_resolved [OF g 1] Let_def split: body_read.splits)
  next
    case (2 e)
    show ?thesis
      by (simp add: hardened_rejected [OF g 2] Let_def)
  qed
  show "Fetch (request_hardened h) \<in> set (effects (analyzeClaim_hardened net h))"
    if "claim h \<noteq> []"
    using that by (rule sent)
  show "(\<exists>q. Fetch q \<in> set (effects (analyzeClaim_hardened net h))) \<longleftrightarrow> claim h \<noteq> []"
  proof
    assume "\<exists>q. Fetch q \<in> set (effects (analyzeClaim_hardened net h))"
    then show "claim h \<noteq> []"
      by (auto simp: hardened_refuses)
  next
    assume "claim h \<noteq> []"
    then show "\<exists>q. Fetch q \<in> set (effects (analyzeClaim_hardened net h))"
      using sent by blast
  qed
qed

theorem nonempty_claim_dispatches_witness:
  "claim (initial_basic\<lparr>claim := ''   ''\<rparr>) \<noteq> []
   \<and> Fetch \<lparr>url = ''http://localhost:8000/analyze'', method = ''POST'',
             headers = [(''Content-Type'', ''application/json'')],
             body = JObj [(''text'', JStr ''   ''), (''image_base64'', JNull)],
             signal = False\<rparr>
       \<in> set (effects (analyzeClaim_basic Silent (initial_basic\<lparr>claim := ''   ''\<rparr>)))
   \<and> claim (initial_hardened\<lparr>claim := ''   ''\<rparr>) \<noteq> []
   \<and> Fetch \<lparr>url = ''http://localhost:8000/analyze'', method = ''POST'',
             headers = [(''Content-Type'', ''application/json'')],
             body = JObj [(''text'', JStr ''   ''), (''image_base64'', JNull)],
             signal = True\<rparr>
       \<in> set (effects (analyzeClaim_hardened Silent (initial_hardened\<lparr>claim := ''   ''\<rparr>)))"
  using nonempty_claim_dispatches
    [of "initial_basic\<lparr>claim := ''   ''\<rparr>" Silent "initial_hardened\<lparr>claim := ''   ''\<rparr>"]
  by (simp add: initial_basic_def initial_hardened_def request_basic_def request_hardened_def
      nullable_json_def)

subsection \<open>Verdict styling\<close>

text \<open>
  Claim C7, as stated, fails. The claim maps a verdict containing ``Misleading'' to the
  warning colour in both variants; in \<^verbatim>\<open>part_001\<close> (and \<^verbatim>\<open>part_000\<close>) the verdict
  ``Misleading'' contains ``Misleading'' and gets the danger colour, not the warning
  colour.
\<close>

theorem misleading_is_danger:
  "str_includes ''Misleading'' ''Misleading''
   \<and> verdict_border_color ''Misleading'' = ''var(--color-danger)''
   \<and> verdict_border_color ''Misleading'' \<noteq> ''var(--color-warning)''"
  by (simp add: verdict_border_color_def)

text \<open>
  Claim C7, amended. The colour is chosen by substring containment, tested in a fixed
  order. A verdict that contains ``True'' gets the success colour; otherwise one that
  contains ``False'' gets the danger colour. For the rest, \<^verbatim>\<open>part_000\<close> and \<^verbatim>\<open>part_001\<close>
  give the danger colour to a verdict that contains ``Misleading'' and the warning
  colour to every other, while \<^verbatim>\<open>App.jsx\<close> does not test for ``Misleading'' and gives
  the warning colour to all of the rest. The verdict ``False'' is shown in the danger
  colour in every file.
\<close>

theorem verdict_color_by_containment:
  "verdict_color_app v =
     (if \<exists>u w. v = u @ ''True'' @ w then ''var(--color-success)''
      else if \<exists>u w. v = u @ ''False'' @ w then ''var(--color-danger)''
      else ''var(--color-warning)'')
   \<and> verdict_border_color v =
     (if \<exists>u w. v = u @ ''True'' @ w then ''var(--color-success)''
      else if (\<exists>u w. v = u @ ''False'' @ w) \<or> (\<exists>u w. v = u @ ''Misleading'' @ w)
        then ''var(--color-danger)''
      else ''var(--color-warning)'')
   \<and> verdict_color_app ''False'' = ''var(--color-danger)''
   \<and> verdict_border_color ''False'' = ''var(--color-danger)''
   \<and> verdict_color_app ''Misleading'' = ''var(--color-warning)''"
proof (intro conjI)
  show "verdict_color_app v =
     (if \<exists>u w. v = u @ ''True'' @ w then ''var(--color-success)''
      else if \<exists>u w. v = u @ ''False'' @ w then ''var(--color-danger)''
      else ''var(--color-warning)'')"
    unfolding verdict_color_app_def str_includes_iff ..
  show "verdict_border_color v =
     (if \<exists>u w. v = u @ ''True'' @ w then ''var(--color-success)''
      else if (\<exists>u w. v = u @ ''False'' @ w) \<or> (\<exists>u w. v = u @ ''Misleading'' @ w)
        then ''var(--color-danger)''
      else ''var(--color-warning)'')"
    unfolding verdict_border_color_def str_includes_iff ..
  show "verdict_color_app ''False'' = ''var(--color-danger)''"
    by (simp add: verdict_color_app_def)
  show "verdict_border_color ''False'' = ''var(--color-danger)''"
    by (simp add: verdict_border_color_def)
  show "verdict_color_app ''Misleading'' = ''var(--color-warning)''"
    by (simp add: verdict_color_app_def)
qed

text \<open>
  Claim C9. ``True'' is tested first: a verdict that contains ``True'' gets the success
  colour in all three files and the check mark in the two files that show an icon,
  whatever else it contains, ``False'' and ``Misleading'' included.
\<close>

theorem true_takes_precedence:
  assumes "v = u @ ''True'' @ w"
  shows "verdict_color_app v = ''var(--color-success)''
         \<and> verdict_border_color v = ''var(--color-success)''
         \<and> verdict_icon v = CheckMark"
proof -
  from assms have "str_includes v ''True''"
    unfolding str_includes_iff by blast
  then show ?thesis
    by (simp add: verdict_color_app_def verdict_border_color_def verdict_icon_def)
qed

theorem true_takes_precedence_witness:
  "''Not True, actually False'' = ''Not '' @ ''True'' @ '', actually False''
   \<and> str_includes ''Not True, actually False'' ''False''
   \<and> verdict_color_app ''Not True, actually False'' = ''var(--color-success)''
   \<and> verdict_border_color ''Not True, actually False'' = ''var(--color-success)''
   \<and> verdict_icon ''Not True, actually False'' = CheckMark"
  using true_takes_precedence [of "''Not True, actually False''" "''Not ''" "'', actually False''"]
  by simp

end
